theory Spec2Isabelle
  imports Complex_Main
begin

section \<open>Python values and exceptions\<close>

text \<open>
  The three scripts (\<^verbatim>\<open>download-benchmark.py\<close>, \<^verbatim>\<open>upload-benchmark.py\<close>,
  \<^verbatim>\<open>tune-multipart.py\<close>) define no exception class of their own: whatever fails,
  fails with the exception of the Python builtin or library call that raised it.
  Python's \<^verbatim>\<open>float\<close> is modelled by \<^typ>\<open>real\<close> (rounding is not modelled), Python's
  unbounded \<^verbatim>\<open>int\<close> by \<^typ>\<open>int\<close>, \<^verbatim>\<open>str\<close> by \<^typ>\<open>string\<close> (ASCII).
\<close>

datatype py_error =
    ValueError
  | ZeroDivisionError
  | AttributeError
  | FileNotFoundError
  | ClientError

datatype py_value = PInt int | PFloat real | PStr string | PBool bool

section \<open>Throughput\<close>

text \<open>
  \<^verbatim>\<open>calculate_speed(time_taken, file_size)\<close> has the same body in all three scripts:
  \<^verbatim>\<open>speed_bps = file_size * 8 / time_taken; speed_mbps = speed_bps / 1e6\<close>.
  Dividing by a zero \<^verbatim>\<open>time_taken\<close> raises \<^verbatim>\<open>ZeroDivisionError\<close>.
\<close>

definition calculate_speed :: "real \<Rightarrow> int \<Rightarrow> py_error + real" where
  "calculate_speed time_taken file_size =
     (if time_taken = 0 then Inl ZeroDivisionError
      else (let speed_bps = real_of_int (file_size * 8) / time_taken;
                speed_mbps = speed_bps / 1000000
            in Inr speed_mbps))"

section \<open>Rows of the tuning sweep and the fastest configuration\<close>

text \<open>
  A row appended to \<^verbatim>\<open>results\<close> by \<^verbatim>\<open>tune-multipart.py\<close> is the six-element list
  \<^verbatim>\<open>[multipart_threshold, max_concurrency, multipart_chunksize, use_threads, time_taken, speed_mbps]\<close>;
  the fields below are its positions 0 to 5.
\<close>

record tuning_row =
  row_multipart_threshold :: int
  row_max_concurrency :: int
  row_multipart_chunksize :: int
  row_use_threads :: string
  row_time_taken :: real
  row_speed_mbps :: real

text \<open>
  Python's builtin \<^verbatim>\<open>max(iterable, key=...)\<close>: the first item is the running maximum and a
  later item replaces it only when its key is strictly greater; an empty iterable raises
  \<^verbatim>\<open>ValueError\<close>.
\<close>

fun max_loop :: "('a \<Rightarrow> real) \<Rightarrow> 'a \<Rightarrow> 'a list \<Rightarrow> 'a" where
  "max_loop key maxitem [] = maxitem"
| "max_loop key maxitem (item # rest) =
     (if key item > key maxitem then max_loop key item rest
      else max_loop key maxitem rest)"

definition py_max :: "('a \<Rightarrow> real) \<Rightarrow> 'a list \<Rightarrow> py_error + 'a" where
  "py_max key xs =
     (case xs of [] \<Rightarrow> Inl ValueError | x # rest \<Rightarrow> Inr (max_loop key x rest))"

text \<open>The dict literal returned by \<^verbatim>\<open>find_fastest_parameters\<close>, in insertion order.\<close>

definition fastest_dict :: "tuning_row \<Rightarrow> (string \<times> py_value) list" where
  "fastest_dict best_result =
     [(''Multipart Threshold (bytes)'', PInt (row_multipart_threshold best_result)),
      (''Max Concurrency'', PInt (row_max_concurrency best_result)),
      (''Multipart Chunksize (bytes)'', PInt (row_multipart_chunksize best_result)),
      (''Use Threads'', PStr (row_use_threads best_result)),
      (''Time Taken (s)'', PFloat (row_time_taken best_result)),
      (''Download Speed (Mbps)'', PFloat (row_speed_mbps best_result))]"

definition find_fastest_parameters ::
  "tuning_row list \<Rightarrow> py_error + (string \<times> py_value) list" where
  "find_fastest_parameters results =
     (case py_max row_speed_mbps results of
        Inl e \<Rightarrow> Inl e
      | Inr best_result \<Rightarrow> Inr (fastest_dict best_result))"

section \<open>Strings, integers and the environment\<close>

text \<open>\<^verbatim>\<open>str.lower()\<close> on ASCII text.\<close>

definition lower_char :: "char \<Rightarrow> char" where
  "lower_char c =
     (case map_of (zip ''ABCDEFGHIJKLMNOPQRSTUVWXYZ'' ''abcdefghijklmnopqrstuvwxyz'') c of
        Some d \<Rightarrow> d
      | None \<Rightarrow> c)"

definition py_lower :: "string \<Rightarrow> string" where
  "py_lower s = map lower_char s"

text \<open>
  The expression \<^verbatim>\<open>use_threads.lower() in ['true', '1', 't', 'y', 'yes']\<close>, written
  inline in the \<^verbatim>\<open>main\<close> of each script.
\<close>

definition use_threads_bool :: "string \<Rightarrow> bool" where
  "use_threads_bool use_threads =
     (py_lower use_threads \<in> set [''true'', ''1'', ''t'', ''y'', ''yes''])"

text \<open>
  \<^verbatim>\<open>s.split(',')\<close>: the pieces between the separators, in order. The result is never
  the empty list: the empty string splits into one empty piece.
\<close>

fun split_loop :: "char \<Rightarrow> string \<Rightarrow> string \<Rightarrow> string list" where
  "split_loop sep cur [] = [rev cur]"
| "split_loop sep cur (c # cs) =
     (if c = sep then rev cur # split_loop sep [] cs else split_loop sep (c # cur) cs)"

definition py_split :: "char \<Rightarrow> string \<Rightarrow> string list" where
  "py_split sep s = split_loop sep [] s"

text \<open>
  \<^verbatim>\<open>int(s)\<close> on an ASCII string, base ten: surrounding whitespace is stripped, one sign
  is allowed, then at least one digit, with single underscores between digits. Anything
  else raises \<^verbatim>\<open>ValueError\<close>. (The interpreter's optional limit on the number of digits
  is not modelled.)
\<close>

definition is_space :: "char \<Rightarrow> bool" where
  "is_space c =
     (c \<in> set [CHR 0x09, CHR 0x0A, CHR 0x0B, CHR 0x0C, CHR 0x0D, CHR 0x20])"

definition py_strip :: "string \<Rightarrow> string" where
  "py_strip s = rev (dropWhile is_space (rev (dropWhile is_space s)))"

definition is_digit :: "char \<Rightarrow> bool" where
  "is_digit c = (c \<in> set ''0123456789'')"

definition digit_val :: "char \<Rightarrow> int" where
  "digit_val c = int (of_char c) - 48"

fun digits_value :: "int \<Rightarrow> string \<Rightarrow> py_error + int" where
  "digits_value acc [] = Inr acc"
| "digits_value acc [c] =
     (if is_digit c then Inr (acc * 10 + digit_val c) else Inl ValueError)"
| "digits_value acc (c # d # ds) =
     (if is_digit c then digits_value (acc * 10 + digit_val c) (d # ds)
      else if c = CHR ''_'' \<and> is_digit d then digits_value (acc * 10 + digit_val d) ds
      else Inl ValueError)"

definition py_int :: "string \<Rightarrow> py_error + int" where
  "py_int s =
     (let t = py_strip s;
          sign = (case t of [] \<Rightarrow> 1 | c # r \<Rightarrow> if c = CHR ''-'' then - 1 else 1);
          u = (case t of [] \<Rightarrow> [] | c # r \<Rightarrow> if c = CHR ''-'' \<or> c = CHR ''+'' then r else t)
      in case u of
           [] \<Rightarrow> Inl ValueError
         | d # ds \<Rightarrow>
             if is_digit d then
               (case digits_value (digit_val d) ds of
                  Inl e \<Rightarrow> Inl e
                | Inr v \<Rightarrow> Inr (sign * v))
             else Inl ValueError)"

text \<open>\<^verbatim>\<open>list(map(int, pieces))\<close>: the first piece that does not parse raises.\<close>

fun map_int :: "string list \<Rightarrow> py_error + int list" where
  "map_int [] = Inr []"
| "map_int (s # ss) =
     (case py_int s of
        Inl e \<Rightarrow> Inl e
      | Inr i \<Rightarrow> (case map_int ss of Inl e \<Rightarrow> Inl e | Inr js \<Rightarrow> Inr (i # js)))"

text \<open>\<^verbatim>\<open>str(i)\<close> for an integer, as the f-strings that build file names use it.\<close>

function str_nat :: "nat \<Rightarrow> string" where
  "str_nat n =
     (if n < 10 then [''0123456789'' ! n]
      else str_nat (n div 10) @ [''0123456789'' ! (n mod 10)])"
  by pat_completeness auto
termination
  by (relation "measure id") auto

declare str_nat.simps [simp del]

definition str_int :: "int \<Rightarrow> string" where
  "str_int i = (if i < 0 then CHR ''-'' # str_nat (nat (- i)) else str_nat (nat i))"

text \<open>
  The process environment after \<^verbatim>\<open>load_dotenv()\<close>. \<^verbatim>\<open>os.getenv(name)\<close> is \<^verbatim>\<open>None\<close> for
  an unset variable, and \<^verbatim>\<open>None.split\<close> raises \<^verbatim>\<open>AttributeError\<close>.
\<close>

type_synonym environ = "string \<rightharpoonup> string"

text \<open>\<^verbatim>\<open>int(os.getenv(name, default))\<close> with an integer default.\<close>

definition getenv_int :: "environ \<Rightarrow> string \<Rightarrow> int \<Rightarrow> py_error + int" where
  "getenv_int env name dflt = (case env name of None \<Rightarrow> Inr dflt | Some v \<Rightarrow> py_int v)"

text \<open>\<^verbatim>\<open>list(map(int, os.getenv(name).split(',')))\<close>\<close>

definition getenv_int_list :: "environ \<Rightarrow> string \<Rightarrow> py_error + int list" where
  "getenv_int_list env name =
     (case env name of
        None \<Rightarrow> Inl AttributeError
      | Some v \<Rightarrow> map_int (py_split (CHR '','') v))"

text \<open>\<^verbatim>\<open>os.getenv(name).split(',')\<close>\<close>

definition getenv_str_list :: "environ \<Rightarrow> string \<Rightarrow> py_error + string list" where
  "getenv_str_list env name =
     (case env name of
        None \<Rightarrow> Inl AttributeError
      | Some v \<Rightarrow> Inr (py_split (CHR '','') v))"

text \<open>
  \<^verbatim>\<open>file_sizes = list(map(int, os.getenv('FILE_SIZES', '100,...,102400').split(',')))\<close>
  of \<^verbatim>\<open>download-benchmark.py\<close> and \<^verbatim>\<open>upload-benchmark.py\<close>.
\<close>

definition load_file_sizes :: "environ \<Rightarrow> py_error + int list" where
  "load_file_sizes env =
     (let file_sizes_str =
            (case env ''FILE_SIZES'' of
               None \<Rightarrow> ''100,500,1024,5120,10240,20480,51200,102400''
             | Some v \<Rightarrow> v)
      in map_int (py_split (CHR '','') file_sizes_str))"

section \<open>Transfers\<close>

text \<open>The keyword arguments of \<^verbatim>\<open>TransferConfig(...)\<close>.\<close>

record transfer_config =
  cfg_multipart_threshold :: int
  cfg_max_concurrency :: int
  cfg_multipart_chunksize :: int
  cfg_use_threads :: bool

text \<open>
  The constructor \<^verbatim>\<open>TransferConfig(...)\<close> of the library raises \<^verbatim>\<open>ValueError\<close> when the
  threshold, the concurrency or the chunk size is not positive; \<^verbatim>\<open>use_threads\<close> is not
  checked.
\<close>

definition TransferConfig :: "transfer_config \<Rightarrow> py_error + transfer_config" where
  "TransferConfig kwargs =
     (if cfg_multipart_threshold kwargs \<le> 0 \<or> cfg_max_concurrency kwargs \<le> 0
         \<or> cfg_multipart_chunksize kwargs \<le> 0
      then Inl ValueError
      else Inr kwargs)"

text \<open>
  The local directory maps a file name to the size of the file in bytes (contents are
  not modelled). The storage client is the environment: a call \<^verbatim>\<open>s3.upload_file\<close> or
  \<^verbatim>\<open>s3.download_file\<close> either raises, or returns after some elapsed time, leaving the
  local directory in some state (a download writes its destination file; other processes
  may touch files while the call runs). Its arguments are the number of calls made
  before, the \<^verbatim>\<open>Config\<close>, the \<^verbatim>\<open>Filename\<close>, the \<^verbatim>\<open>Key\<close> and the directory at the time of
  the call. The elapsed time is \<^verbatim>\<open>end_time - start_time\<close> of two readings of
  \<^verbatim>\<open>time.time()\<close>. The bucket name and the creation of the client are left out.
\<close>

type_synonym disk = "string \<rightharpoonup> int"

datatype transfer_result = Transfer_raises | Transfer_returns real disk

type_synonym s3_client =
  "nat \<Rightarrow> transfer_config \<Rightarrow> string \<Rightarrow> string \<Rightarrow> disk \<Rightarrow> transfer_result"

definition download_file ::
  "s3_client \<Rightarrow> nat \<Rightarrow> string \<Rightarrow> string \<Rightarrow> transfer_config \<Rightarrow> disk
     \<Rightarrow> py_error + (real \<times> disk)" where
  "download_file s3 n object_key download_path config d =
     (case s3 n config download_path object_key d of
        Transfer_raises \<Rightarrow> Inl ClientError
      | Transfer_returns time_taken d' \<Rightarrow> Inr (time_taken, d'))"

definition upload_file ::
  "s3_client \<Rightarrow> nat \<Rightarrow> string \<Rightarrow> string \<Rightarrow> transfer_config \<Rightarrow> disk
     \<Rightarrow> py_error + (real \<times> disk)" where
  "upload_file s3 n file_name object_key config d =
     (case s3 n config file_name object_key d of
        Transfer_raises \<Rightarrow> Inl ClientError
      | Transfer_returns time_taken d' \<Rightarrow> Inr (time_taken, d'))"

text \<open>
  \<^verbatim>\<open>create_dummy_file\<close> opens the file for writing, which creates it empty, and writes
  \<^verbatim>\<open>os.urandom(size_in_mb * 1024 * 1024)\<close>, which raises \<^verbatim>\<open>ValueError\<close> for a negative
  argument.
\<close>

definition create_dummy_file :: "string \<Rightarrow> int \<Rightarrow> disk \<Rightarrow> disk \<times> py_error option" where
  "create_dummy_file file_name size_in_mb d =
     (if size_in_mb * 1024 * 1024 < 0 then (d(file_name \<mapsto> 0), Some ValueError)
      else (d(file_name \<mapsto> size_in_mb * 1024 * 1024), None))"

definition os_path_getsize :: "disk \<Rightarrow> string \<Rightarrow> py_error + int" where
  "os_path_getsize d path =
     (case d path of None \<Rightarrow> Inl FileNotFoundError | Some n \<Rightarrow> Inr n)"

definition os_remove :: "disk \<Rightarrow> string \<Rightarrow> py_error + disk" where
  "os_remove d path =
     (case d path of None \<Rightarrow> Inl FileNotFoundError | Some n \<Rightarrow> Inr (d(path := None)))"

text \<open>
  The state of a sweep: the configurations of the transfer calls made so far (a ghost
  log, one entry per call of the client), the local directory, and \<^verbatim>\<open>results\<close>.
  A loop returns the state it reached and the exception that ended it, if any.
\<close>

record 'row sweep_state =
  st_transfers :: "transfer_config list"
  st_local_files :: disk
  st_results :: "'row list"

section \<open>The tuning sweep of tune-multipart.py\<close>

text \<open>
  \<^verbatim>\<open>itertools.product(p, q, r, s)\<close> yields the tuples of the nested loops
  \<^verbatim>\<open>for a in p: for b in q: for c in r: for d in s\<close>, the last argument varying fastest.
\<close>

definition itertools_product ::
  "'a list \<Rightarrow> 'b list \<Rightarrow> 'c list \<Rightarrow> 'd list \<Rightarrow> ('a \<times> 'b \<times> 'c \<times> 'd) list" where
  "itertools_product ps qs rs ss =
     concat (map (\<lambda>a. concat (map (\<lambda>b. concat (map (\<lambda>c. map (\<lambda>d. (a, b, c, d)) ss) rs)) qs)) ps)"

text \<open>
  The keyword arguments handed to \<^verbatim>\<open>TransferConfig\<close> at the head of the loop body
  (lines 146 to 154).
\<close>

definition tuning_config :: "int \<times> int \<times> int \<times> string \<Rightarrow> transfer_config" where
  "tuning_config combination =
     (case combination of
        (multipart_threshold, max_concurrency, multipart_chunksize, use_threads) \<Rightarrow>
          \<lparr>cfg_multipart_threshold = multipart_threshold,
           cfg_max_concurrency = max_concurrency,
           cfg_multipart_chunksize = multipart_chunksize,
           cfg_use_threads = use_threads_bool use_threads\<rparr>)"

text \<open>The row appended to \<^verbatim>\<open>results\<close> (lines 166 to 173).\<close>

definition tuning_result ::
  "int \<times> int \<times> int \<times> string \<Rightarrow> real \<Rightarrow> real \<Rightarrow> tuning_row" where
  "tuning_result combination time_taken speed_mbps =
     (case combination of
        (multipart_threshold, max_concurrency, multipart_chunksize, use_threads) \<Rightarrow>
          \<lparr>row_multipart_threshold = multipart_threshold,
           row_max_concurrency = max_concurrency,
           row_multipart_chunksize = multipart_chunksize,
           row_use_threads = use_threads,
           row_time_taken = time_taken,
           row_speed_mbps = speed_mbps\<rparr>)"

text \<open>One pass through the body of the \<^verbatim>\<open>for\<close> loop of \<^verbatim>\<open>main\<close> (lines 145 to 177).\<close>

definition tuning_iteration ::
  "s3_client \<Rightarrow> string \<Rightarrow> string \<Rightarrow> int \<times> int \<times> int \<times> string
     \<Rightarrow> tuning_row sweep_state \<Rightarrow> tuning_row sweep_state \<times> py_error option" where
  "tuning_iteration s3 object_key download_path combination st =
     (case TransferConfig (tuning_config combination) of
        Inl e \<Rightarrow> (st, Some e)
      | Inr config \<Rightarrow>
     (let st1 = st\<lparr>st_transfers := st_transfers st @ [config]\<rparr>
      in case download_file s3 (length (st_transfers st)) object_key download_path config
                (st_local_files st) of
           Inl e \<Rightarrow> (st1, Some e)
         | Inr (time_taken, d1) \<Rightarrow>
             (case os_path_getsize d1 download_path of
                Inl e \<Rightarrow> (st1\<lparr>st_local_files := d1\<rparr>, Some e)
              | Inr file_size \<Rightarrow>
                  (case calculate_speed time_taken file_size of
                     Inl e \<Rightarrow> (st1\<lparr>st_local_files := d1\<rparr>, Some e)
                   | Inr speed_mbps \<Rightarrow>
                       (let st2 = st1\<lparr>st_local_files := d1,
                                      st_results := st_results st
                                        @ [tuning_result combination time_taken speed_mbps]\<rparr>
                        in case os_remove d1 download_path of
                             Inl e \<Rightarrow> (st2, Some e)
                           | Inr d2 \<Rightarrow> (st2\<lparr>st_local_files := d2\<rparr>, None))))))"

fun tuning_loop ::
  "s3_client \<Rightarrow> string \<Rightarrow> string \<Rightarrow> (int \<times> int \<times> int \<times> string) list
     \<Rightarrow> tuning_row sweep_state \<Rightarrow> tuning_row sweep_state \<times> py_error option" where
  "tuning_loop s3 object_key download_path [] st = (st, None)"
| "tuning_loop s3 object_key download_path (combination # rest) st =
     (case tuning_iteration s3 object_key download_path combination st of
        (st', Some e) \<Rightarrow> (st', Some e)
      | (st', None) \<Rightarrow> tuning_loop s3 object_key download_path rest st')"

text \<open>
  \<^verbatim>\<open>main\<close> of \<^verbatim>\<open>tune-multipart.py\<close> up to the end of the sweep (lines 120 to 177): the
  ranges are read from the environment, then every combination is measured.
\<close>

definition tune_main ::
  "environ \<Rightarrow> s3_client \<Rightarrow> disk \<Rightarrow> tuning_row sweep_state \<times> py_error option" where
  "tune_main env s3 d0 =
     (let st0 = \<lparr>st_transfers = [], st_local_files = d0, st_results = []\<rparr>
      in case getenv_int env ''TUNE_FILE_SIZE'' 1024 of
           Inl e \<Rightarrow> (st0, Some e)
         | Inr tune_file_size \<Rightarrow>
        (case getenv_int_list env ''TUNE_MULTIPART_THRESHOLD'' of
           Inl e \<Rightarrow> (st0, Some e)
         | Inr multipart_thresholds \<Rightarrow>
        (case getenv_int_list env ''TUNE_MAX_CONCURRENCY'' of
           Inl e \<Rightarrow> (st0, Some e)
         | Inr max_concurrencies \<Rightarrow>
        (case getenv_int_list env ''TUNE_MULTIPART_CHUNKSIZE'' of
           Inl e \<Rightarrow> (st0, Some e)
         | Inr multipart_chunksizes \<Rightarrow>
        (case getenv_str_list env ''TUNE_USE_THREADS'' of
           Inl e \<Rightarrow> (st0, Some e)
         | Inr use_threads_options \<Rightarrow>
             (let parameter_combinations =
                    itertools_product multipart_thresholds max_concurrencies
                      multipart_chunksizes use_threads_options;
                  object_key = ''example_'' @ str_int tune_file_size @ ''mb.txt'';
                  download_path = ''downloaded_'' @ str_int tune_file_size @ ''mb.txt''
              in tuning_loop s3 object_key download_path parameter_combinations st0))))))"

text \<open>
  The marker sizes of the scatter plot in \<^verbatim>\<open>plot_results\<close> (line 87):
  \<^verbatim>\<open>s=[100 if use == 'True' else 50 for use in use_threads]\<close>.
\<close>

definition marker_sizes :: "tuning_row list \<Rightarrow> int list" where
  "marker_sizes results =
     (let use_threads = map row_use_threads results
      in map (\<lambda>use. if use = ''True'' then 100 else 50) use_threads)"

text \<open>Positions 0 to 3 of a row: the combination it was measured for.\<close>

definition row_combination :: "tuning_row \<Rightarrow> int \<times> int \<times> int \<times> string" where
  "row_combination r =
     (row_multipart_threshold r, row_max_concurrency r, row_multipart_chunksize r,
      row_use_threads r)"

section \<open>The size sweeps of download-benchmark.py and upload-benchmark.py\<close>

text \<open>
  A row of these two scripts is \<^verbatim>\<open>[size, time_taken, speed_mbps, multipart_threshold,
  max_concurrency, multipart_chunksize, use_threads]\<close>, where \<^verbatim>\<open>size\<close> is the configured
  size in megabytes and \<^verbatim>\<open>use_threads\<close> the parsed boolean.
\<close>

record size_row =
  srow_size :: int
  srow_time_taken :: real
  srow_speed_mbps :: real
  srow_multipart_threshold :: int
  srow_max_concurrency :: int
  srow_multipart_chunksize :: int
  srow_use_threads :: bool

definition size_result :: "int \<Rightarrow> real \<Rightarrow> real \<Rightarrow> transfer_config \<Rightarrow> size_row" where
  "size_result size_mb time_taken speed_mbps config =
     \<lparr>srow_size = size_mb,
      srow_time_taken = time_taken,
      srow_speed_mbps = speed_mbps,
      srow_multipart_threshold = cfg_multipart_threshold config,
      srow_max_concurrency = cfg_max_concurrency config,
      srow_multipart_chunksize = cfg_multipart_chunksize config,
      srow_use_threads = cfg_use_threads config\<rparr>"

text \<open>
  The four \<^verbatim>\<open>TransferConfig\<close> parameters, read the same way by both scripts, with their
  defaults, and the configuration constructed from them.
\<close>

definition load_transfer_config :: "environ \<Rightarrow> py_error + transfer_config" where
  "load_transfer_config env =
     (case getenv_int env ''MULTIPART_THRESHOLD'' (50 * 1024 * 1024) of
        Inl e \<Rightarrow> Inl e
      | Inr multipart_threshold \<Rightarrow>
     (case getenv_int env ''MAX_CONCURRENCY'' 10 of
        Inl e \<Rightarrow> Inl e
      | Inr max_concurrency \<Rightarrow>
     (case getenv_int env ''MULTIPART_CHUNKSIZE'' (50 * 1024 * 1024) of
        Inl e \<Rightarrow> Inl e
      | Inr multipart_chunksize \<Rightarrow>
          (let use_threads =
                 use_threads_bool (case env ''USE_THREADS'' of None \<Rightarrow> ''True'' | Some v \<Rightarrow> v)
           in TransferConfig
                \<lparr>cfg_multipart_threshold = multipart_threshold,
                 cfg_max_concurrency = max_concurrency,
                 cfg_multipart_chunksize = multipart_chunksize,
                 cfg_use_threads = use_threads\<rparr>))))"

text \<open>The loop body of \<^verbatim>\<open>download-benchmark.py\<close> (lines 123 to 149).\<close>

definition download_iteration ::
  "s3_client \<Rightarrow> transfer_config \<Rightarrow> int \<Rightarrow> size_row sweep_state
     \<Rightarrow> size_row sweep_state \<times> py_error option" where
  "download_iteration s3 config size_mb st =
     (let object_key = ''example_'' @ str_int size_mb @ ''mb.txt'';
          download_path = ''downloaded_'' @ str_int size_mb @ ''mb.txt'';
          st1 = st\<lparr>st_transfers := st_transfers st @ [config]\<rparr>
      in case download_file s3 (length (st_transfers st)) object_key download_path config
                (st_local_files st) of
           Inl e \<Rightarrow> (st1, Some e)
         | Inr (time_taken, d1) \<Rightarrow>
             (case os_path_getsize d1 download_path of
                Inl e \<Rightarrow> (st1\<lparr>st_local_files := d1\<rparr>, Some e)
              | Inr file_size \<Rightarrow>
                  (case calculate_speed time_taken file_size of
                     Inl e \<Rightarrow> (st1\<lparr>st_local_files := d1\<rparr>, Some e)
                   | Inr speed_mbps \<Rightarrow>
                       (let st2 = st1\<lparr>st_local_files := d1,
                                      st_results := st_results st
                                        @ [size_result size_mb time_taken speed_mbps config]\<rparr>
                        in case os_remove d1 download_path of
                             Inl e \<Rightarrow> (st2, Some e)
                           | Inr d2 \<Rightarrow> (st2\<lparr>st_local_files := d2\<rparr>, None)))))"

fun download_loop ::
  "s3_client \<Rightarrow> transfer_config \<Rightarrow> int list \<Rightarrow> size_row sweep_state
     \<Rightarrow> size_row sweep_state \<times> py_error option" where
  "download_loop s3 config [] st = (st, None)"
| "download_loop s3 config (size_mb # rest) st =
     (case download_iteration s3 config size_mb st of
        (st', Some e) \<Rightarrow> (st', Some e)
      | (st', None) \<Rightarrow> download_loop s3 config rest st')"

definition download_main ::
  "environ \<Rightarrow> s3_client \<Rightarrow> disk \<Rightarrow> size_row sweep_state \<times> py_error option" where
  "download_main env s3 d0 =
     (let st0 = \<lparr>st_transfers = [], st_local_files = d0, st_results = []\<rparr>
      in case load_file_sizes env of
           Inl e \<Rightarrow> (st0, Some e)
         | Inr file_sizes \<Rightarrow>
             (case load_transfer_config env of
                Inl e \<Rightarrow> (st0, Some e)
              | Inr config \<Rightarrow> download_loop s3 config file_sizes st0))"

text \<open>
  The loop body of \<^verbatim>\<open>upload-benchmark.py\<close> (lines 131 to 162): the dummy file is
  created, uploaded, and only then measured with \<^verbatim>\<open>os.path.getsize\<close>.
\<close>

definition upload_iteration ::
  "s3_client \<Rightarrow> transfer_config \<Rightarrow> int \<Rightarrow> size_row sweep_state
     \<Rightarrow> size_row sweep_state \<times> py_error option" where
  "upload_iteration s3 config size_mb st =
     (let file_name = ''dummy_'' @ str_int size_mb @ ''mb.txt'';
          object_key = ''example_'' @ str_int size_mb @ ''mb.txt''
      in case create_dummy_file file_name size_mb (st_local_files st) of
           (d0, Some e) \<Rightarrow> (st\<lparr>st_local_files := d0\<rparr>, Some e)
         | (d0, None) \<Rightarrow>
             (let st1 = st\<lparr>st_transfers := st_transfers st @ [config], st_local_files := d0\<rparr>
              in case upload_file s3 (length (st_transfers st)) file_name object_key config d0 of
                   Inl e \<Rightarrow> (st1, Some e)
                 | Inr (time_taken, d1) \<Rightarrow>
                     (case os_path_getsize d1 file_name of
                        Inl e \<Rightarrow> (st1\<lparr>st_local_files := d1\<rparr>, Some e)
                      | Inr file_size \<Rightarrow>
                          (case calculate_speed time_taken file_size of
                             Inl e \<Rightarrow> (st1\<lparr>st_local_files := d1\<rparr>, Some e)
                           | Inr speed_mbps \<Rightarrow>
                               (let st2 = st1\<lparr>st_local_files := d1,
                                              st_results := st_results st
                                                @ [size_result size_mb time_taken speed_mbps config]\<rparr>
                                in case os_remove d1 file_name of
                                     Inl e \<Rightarrow> (st2, Some e)
                                   | Inr d2 \<Rightarrow> (st2\<lparr>st_local_files := d2\<rparr>, None))))))"

fun upload_loop ::
  "s3_client \<Rightarrow> transfer_config \<Rightarrow> int list \<Rightarrow> size_row sweep_state
     \<Rightarrow> size_row sweep_state \<times> py_error option" where
  "upload_loop s3 config [] st = (st, None)"
| "upload_loop s3 config (size_mb # rest) st =
     (case upload_iteration s3 config size_mb st of
        (st', Some e) \<Rightarrow> (st', Some e)
      | (st', None) \<Rightarrow> upload_loop s3 config rest st')"

definition upload_main ::
  "environ \<Rightarrow> s3_client \<Rightarrow> disk \<Rightarrow> size_row sweep_state \<times> py_error option" where
  "upload_main env s3 d0 =
     (let st0 = \<lparr>st_transfers = [], st_local_files = d0, st_results = []\<rparr>
      in case load_file_sizes env of
           Inl e \<Rightarrow> (st0, Some e)
         | Inr file_sizes \<Rightarrow>
             (case load_transfer_config env of
                Inl e \<Rightarrow> (st0, Some e)
              | Inr config \<Rightarrow> upload_loop s3 config file_sizes st0))"

section \<open>Result files\<close>

text \<open>
  A result file is the sequence of items written to it: a row handed to
  \<^verbatim>\<open>csv.writer\<close>, or an object handed to \<^verbatim>\<open>json.dump\<close>. How the library renders an item
  as text is not modelled. \<^verbatim>\<open>open(filename, 'w')\<close> creates the file or truncates it.
\<close>

datatype written = Row "py_value list" | Document "(string \<times> py_value) list"

type_synonym files = "string \<rightharpoonup> written list"

definition open_w :: "files \<Rightarrow> string \<Rightarrow> files" where
  "open_w fs filename = fs(filename \<mapsto> [])"

definition write_item :: "files \<Rightarrow> string \<Rightarrow> written \<Rightarrow> files" where
  "write_item fs filename item =
     fs(filename \<mapsto> (case fs filename of None \<Rightarrow> [item] | Some content \<Rightarrow> content @ [item]))"

definition writerow :: "files \<Rightarrow> string \<Rightarrow> py_value list \<Rightarrow> files" where
  "writerow fs filename row = write_item fs filename (Row row)"

fun writerows :: "files \<Rightarrow> string \<Rightarrow> py_value list list \<Rightarrow> files" where
  "writerows fs filename [] = fs"
| "writerows fs filename (row # rows) = writerows (writerow fs filename row) filename rows"

definition tuning_row_cells :: "tuning_row \<Rightarrow> py_value list" where
  "tuning_row_cells r =
     [PInt (row_multipart_threshold r), PInt (row_max_concurrency r),
      PInt (row_multipart_chunksize r), PStr (row_use_threads r),
      PFloat (row_time_taken r), PFloat (row_speed_mbps r)]"

definition size_row_cells :: "size_row \<Rightarrow> py_value list" where
  "size_row_cells r =
     [PInt (srow_size r), PFloat (srow_time_taken r), PFloat (srow_speed_mbps r),
      PInt (srow_multipart_threshold r), PInt (srow_max_concurrency r),
      PInt (srow_multipart_chunksize r), PBool (srow_use_threads r)]"

text \<open>\<^verbatim>\<open>save_results_to_csv\<close> of \<^verbatim>\<open>tune-multipart.py\<close>.\<close>

definition save_results_to_csv_tuning :: "tuning_row list \<Rightarrow> string \<Rightarrow> files \<Rightarrow> files" where
  "save_results_to_csv_tuning results filename fs =
     (let file = open_w fs filename;
          file = writerow file filename
                   [PStr ''Multipart Threshold (bytes)'', PStr ''Max Concurrency'',
                    PStr ''Multipart Chunksize (bytes)'', PStr ''Use Threads'',
                    PStr ''Time Taken (s)'', PStr ''Download Speed (Mbps)'']
      in writerows file filename (map tuning_row_cells results))"

text \<open>\<^verbatim>\<open>save_results_to_csv\<close> of \<^verbatim>\<open>download-benchmark.py\<close>.\<close>

definition save_results_to_csv_download :: "size_row list \<Rightarrow> string \<Rightarrow> files \<Rightarrow> files" where
  "save_results_to_csv_download results filename fs =
     (let file = open_w fs filename;
          file = writerow file filename
                   [PStr ''File Size (MB)'', PStr ''Time Taken (s)'',
                    PStr ''Download Speed (Mbps)'', PStr ''Multipart Threshold (bytes)'',
                    PStr ''Max Concurrency'', PStr ''Multipart Chunksize (bytes)'',
                    PStr ''Use Threads'']
      in writerows file filename (map size_row_cells results))"

text \<open>\<^verbatim>\<open>save_results_to_csv\<close> of \<^verbatim>\<open>upload-benchmark.py\<close>.\<close>

definition save_results_to_csv_upload :: "size_row list \<Rightarrow> string \<Rightarrow> files \<Rightarrow> files" where
  "save_results_to_csv_upload results filename fs =
     (let file = open_w fs filename;
          file = writerow file filename
                   [PStr ''File Size (MB)'', PStr ''Time Taken (s)'',
                    PStr ''Upload Speed (Mbps)'', PStr ''Multipart Threshold (bytes)'',
                    PStr ''Max Concurrency'', PStr ''Multipart Chunksize (bytes)'',
                    PStr ''Use Threads'']
      in writerows file filename (map size_row_cells results))"

text \<open>\<^verbatim>\<open>save_fastest_to_json\<close> of \<^verbatim>\<open>tune-multipart.py\<close>.\<close>

definition save_fastest_to_json ::
  "(string \<times> py_value) list \<Rightarrow> string \<Rightarrow> files \<Rightarrow> files" where
  "save_fastest_to_json fastest_params filename fs =
     (let json_file = open_w fs filename
      in write_item json_file filename (Document fastest_params))"

section \<open>Example environments\<close>

text \<open>
  Concrete environments on which the theorems below are exercised. Three tuning rows,
  the last two of equal, maximal speed:
\<close>

definition example_results :: "tuning_row list" where
  "example_results =
     [tuning_result (10485760, 5, 10485760, ''True'') 4 200,
      tuning_result (10485760, 10, 10485760, ''True'') 2 400,
      tuning_result (52428800, 5, 10485760, ''True'') 2 400]"

text \<open>
  A client whose first transfer takes 2 seconds on a file of 100 MB (104857600 bytes) and
  whose later transfers take 5 seconds on a file of 500 MB (524288000 bytes).
\<close>

definition scenario_client :: s3_client where
  "scenario_client n config file_name object_key d =
     (if n = 0 then Transfer_returns 2 (d(file_name \<mapsto> 104857600))
      else Transfer_returns 5 (d(file_name \<mapsto> 524288000)))"

definition scenario_environ :: environ where
  "scenario_environ =
     map_of [(''FILE_SIZES'', ''100,500''),
             (''TUNE_MULTIPART_THRESHOLD'', ''10485760,52428800''),
             (''TUNE_MAX_CONCURRENCY'', ''5''),
             (''TUNE_MULTIPART_CHUNKSIZE'', ''10485760''),
             (''TUNE_USE_THREADS'', ''true'')]"


text \<open>An environment whose \<^verbatim>\<open>TUNE_USE_THREADS\<close> is the empty string.\<close>

definition empty_use_threads_environ :: environ where
  "empty_use_threads_environ =
     map_of [(''TUNE_MULTIPART_THRESHOLD'', ''10485760,52428800''),
             (''TUNE_MAX_CONCURRENCY'', ''5''),
             (''TUNE_MULTIPART_CHUNKSIZE'', ''10485760''),
             (''TUNE_USE_THREADS'', [])]"

text \<open>
  An environment whose \<^verbatim>\<open>FILE_SIZES\<close>, \<^verbatim>\<open>TUNE_MAX_CONCURRENCY\<close> and
  \<^verbatim>\<open>TUNE_USE_THREADS\<close> are empty strings.
\<close>

definition empty_sizes_environ :: environ where
  "empty_sizes_environ =
     map_of [(''FILE_SIZES'', []),
             (''TUNE_MULTIPART_THRESHOLD'', ''10485760,52428800''),
             (''TUNE_MAX_CONCURRENCY'', []),
             (''TUNE_MULTIPART_CHUNKSIZE'', ''10485760''),
             (''TUNE_USE_THREADS'', [])]"


text \<open>The state in which every \<^verbatim>\<open>main\<close> enters its loop.\<close>

definition initial_state :: "disk \<Rightarrow> 'row sweep_state" where
  "initial_state d0 = \<lparr>st_transfers = [], st_local_files = d0, st_results = []\<rparr>"

section \<open>Properties of the throughput computation\<close>

text \<open>
  Claim C2. For every file size and every positive duration, the computed speed is
  \<open>file_size * 8 / time_taken / 10\<^sup>6\<close> megabits per second, and the computation does not fail.
\<close>

theorem calculate_speed_formula:
  "0 < time_taken \<Longrightarrow>
     calculate_speed time_taken file_size =
       Inr (real_of_int file_size * 8 / time_taken / 1000000)"
  by (simp add: calculate_speed_def)

theorem calculate_speed_formula_witness:
  "(0::real) < 2 \<and> calculate_speed 2 104857600 = Inr (real_of_int 104857600 * 8 / 2 / 1000000)"
  using calculate_speed_formula [of 2 104857600] by simp

section \<open>Properties of the selection of the fastest configuration\<close>

lemma max_loop_split:
  "\<exists>pre r post. maxitem # xs = pre @ r # post \<and> max_loop key maxitem xs = r
     \<and> (\<forall>y \<in> set pre. key y < key r) \<and> (\<forall>y \<in> set post. key y \<le> key r)"
proof (induction xs arbitrary: maxitem)
  case Nil
  have "maxitem # [] = [] @ maxitem # []" by simp
  then show ?case by fastforce
next
  case (Cons x xs)
  show ?case
  proof (cases "key x > key maxitem")
    case True
    from Cons.IH [of x] obtain pre r post where
      s: "x # xs = pre @ r # post" and m: "max_loop key x xs = r"
      and lt: "\<forall>y \<in> set pre. key y < key r" and le: "\<forall>y \<in> set post. key y \<le> key r"
      by blast
    have "x \<in> set (pre @ r # post)" using s by (metis list.set_intros(1))
    then have "key x \<le> key r" using lt le by auto
    with True have "key maxitem < key r" by simp
    with lt have lt': "\<forall>y \<in> set (maxitem # pre). key y < key r" by simp
    have "maxitem # x # xs = (maxitem # pre) @ r # post" using s by simp
    moreover have "max_loop key maxitem (x # xs) = r" using True m by simp
    ultimately show ?thesis using lt' le by blast
  next
    case False
    from Cons.IH [of maxitem] obtain pre r post where
      s: "maxitem # xs = pre @ r # post" and m: "max_loop key maxitem xs = r"
      and lt: "\<forall>y \<in> set pre. key y < key r" and le: "\<forall>y \<in> set post. key y \<le> key r"
      by blast
    have m': "max_loop key maxitem (x # xs) = r" using False m by simp
    show ?thesis
    proof (cases pre)
      case Nil
      with s have r: "r = maxitem" and p: "post = xs" by simp_all
      have "maxitem # x # xs = [] @ r # (x # xs)" using r by simp
      moreover have "\<forall>y \<in> set (x # xs). key y \<le> key r" using le False r p by auto
      ultimately show ?thesis using m' by fastforce
    next
      case (Cons p pre')
      with s have p: "p = maxitem" and xs: "xs = pre' @ r # post" by simp_all
      have "key maxitem < key r" using lt Cons p by simp
      with False have "key x < key r" by simp
      with lt Cons p have lt': "\<forall>y \<in> set (maxitem # x # pre'). key y < key r" by simp
      have "maxitem # x # xs = (maxitem # x # pre') @ r # post" using xs by simp
      then show ?thesis using m' lt' le by blast
    qed
  qed
qed

text \<open>
  Claim C1. On a non-empty list of results the selection succeeds. It returns the six
  fields of a row \<open>r\<close> of the list, under the six column names, such that every row
  before \<open>r\<close> is strictly slower and every row after \<open>r\<close> is at most as fast: \<open>r\<close> has the
  maximal speed and, among the rows of maximal speed, it is the first in insertion
  order.
\<close>

theorem find_fastest_parameters_first_maximum:
  assumes "results \<noteq> []"
  shows "\<exists>pre r post. results = pre @ r # post
           \<and> find_fastest_parameters results =
               Inr [(''Multipart Threshold (bytes)'', PInt (row_multipart_threshold r)),
                    (''Max Concurrency'', PInt (row_max_concurrency r)),
                    (''Multipart Chunksize (bytes)'', PInt (row_multipart_chunksize r)),
                    (''Use Threads'', PStr (row_use_threads r)),
                    (''Time Taken (s)'', PFloat (row_time_taken r)),
                    (''Download Speed (Mbps)'', PFloat (row_speed_mbps r))]
           \<and> (\<forall>y \<in> set pre. row_speed_mbps y < row_speed_mbps r)
           \<and> (\<forall>y \<in> set post. row_speed_mbps y \<le> row_speed_mbps r)"
proof -
  from assms obtain x rest where xs: "results = x # rest" by (cases results) auto
  from max_loop_split [of x rest row_speed_mbps] obtain pre r post where
    s: "x # rest = pre @ r # post" and m: "max_loop row_speed_mbps x rest = r"
    and lt: "\<forall>y \<in> set pre. row_speed_mbps y < row_speed_mbps r"
    and le: "\<forall>y \<in> set post. row_speed_mbps y \<le> row_speed_mbps r"
    by blast
  have "py_max row_speed_mbps (x # rest) = Inr r"
    using m by (simp add: py_max_def)
  then have "find_fastest_parameters results =
               Inr [(''Multipart Threshold (bytes)'', PInt (row_multipart_threshold r)),
                    (''Max Concurrency'', PInt (row_max_concurrency r)),
                    (''Multipart Chunksize (bytes)'', PInt (row_multipart_chunksize r)),
                    (''Use Threads'', PStr (row_use_threads r)),
                    (''Time Taken (s)'', PFloat (row_time_taken r)),
                    (''Download Speed (Mbps)'', PFloat (row_speed_mbps r))]"
    by (simp add: find_fastest_parameters_def fastest_dict_def xs)
  moreover have "results = pre @ r # post" using s xs by simp
  ultimately show ?thesis using lt le by blast
qed

text \<open>
  On the example rows the two fastest tie at 400 Mbps and the fields of the earlier of
  them are returned.
\<close>

theorem find_fastest_parameters_first_maximum_witness:
  "example_results \<noteq> []
   \<and> (\<exists>pre r post. example_results = pre @ r # post
           \<and> find_fastest_parameters example_results =
               Inr [(''Multipart Threshold (bytes)'', PInt (row_multipart_threshold r)),
                    (''Max Concurrency'', PInt (row_max_concurrency r)),
                    (''Multipart Chunksize (bytes)'', PInt (row_multipart_chunksize r)),
                    (''Use Threads'', PStr (row_use_threads r)),
                    (''Time Taken (s)'', PFloat (row_time_taken r)),
                    (''Download Speed (Mbps)'', PFloat (row_speed_mbps r))]
           \<and> (\<forall>y \<in> set pre. row_speed_mbps y < row_speed_mbps r)
           \<and> (\<forall>y \<in> set post. row_speed_mbps y \<le> row_speed_mbps r))
   \<and> find_fastest_parameters example_results =
       Inr [(''Multipart Threshold (bytes)'', PInt 10485760),
            (''Max Concurrency'', PInt 10),
            (''Multipart Chunksize (bytes)'', PInt 10485760),
            (''Use Threads'', PStr ''True''),
            (''Time Taken (s)'', PFloat 2),
            (''Download Speed (Mbps)'', PFloat 400)]"
proof -
  have ne: "example_results \<noteq> []" by (simp add: example_results_def)
  have tie: "find_fastest_parameters example_results =
       Inr [(''Multipart Threshold (bytes)'', PInt 10485760),
            (''Max Concurrency'', PInt 10),
            (''Multipart Chunksize (bytes)'', PInt 10485760),
            (''Use Threads'', PStr ''True''),
            (''Time Taken (s)'', PFloat 2),
            (''Download Speed (Mbps)'', PFloat 400)]"
    by (simp add: find_fastest_parameters_def fastest_dict_def py_max_def example_results_def
          tuning_result_def)
  from find_fastest_parameters_first_maximum [OF ne] ne tie show ?thesis by blast
qed

text \<open>
  Claim C6. On an empty list of results the selection fails: \<^verbatim>\<open>max\<close> raises
  \<^verbatim>\<open>ValueError\<close>, which nothing in the script catches.
\<close>

theorem find_fastest_parameters_empty:
  "find_fastest_parameters [] = Inl ValueError"
  by (simp add: find_fastest_parameters_def py_max_def)

section \<open>The scenario of two sizes\<close>

text \<open>
  Claim C7, as stated, gives 839.86 Mbps for 524288000 bytes in 5 seconds. The code
  computes 838.8608, which is not 839.86 and does not round to it.
\<close>

theorem scenario_speed_counterexample:
  "calculate_speed 5 524288000 = Inr 838.8608
   \<and> calculate_speed 5 524288000 \<noteq> Inr 839.86
   \<and> \<not> \<bar>838.8608 - 839.86\<bar> \<le> (0.005::real)"
  by (simp add: calculate_speed_def)

text \<open>
  Claim C7, amended. 104857600 bytes in 2 seconds are 419.4304 Mbps (419.43 to two
  decimals) and 524288000 bytes in 5 seconds are 838.8608 Mbps (838.86 to two decimals);
  the size sweep over 100 and 500 MB records these speeds, and the selection applied to
  a tuning sweep with these two measurements returns the 5 second, 524288000 byte run.
\<close>

theorem scenario_speeds_and_best:
  "calculate_speed 2 104857600 = Inr 419.4304
   \<and> calculate_speed 5 524288000 = Inr 838.8608
   \<and> \<bar>419.4304 - 419.43\<bar> \<le> (0.005::real)
   \<and> \<bar>838.8608 - 838.86\<bar> \<le> (0.005::real)
   \<and> map srow_speed_mbps
        (st_results (fst (download_main scenario_environ scenario_client Map.empty)))
       = [419.4304, 838.8608]
   \<and> find_fastest_parameters
        (st_results (fst (tune_main scenario_environ scenario_client Map.empty)))
       = Inr (fastest_dict (tuning_result (52428800, 5, 10485760, ''true'') 5 838.8608))
   \<and> find_fastest_parameters
        (st_results (fst (tune_main scenario_environ scenario_client Map.empty)))
       = Inr [(''Multipart Threshold (bytes)'', PInt 52428800),
              (''Max Concurrency'', PInt 5),
              (''Multipart Chunksize (bytes)'', PInt 10485760),
              (''Use Threads'', PStr ''true''),
              (''Time Taken (s)'', PFloat 5),
              (''Download Speed (Mbps)'', PFloat 838.8608)]"
  by code_simp

section \<open>Parsing of the use_threads input\<close>

text \<open>
  Claim C9. The parsed boolean is true exactly when the lowercased string is one of
  \<^verbatim>\<open>true\<close>, \<^verbatim>\<open>1\<close>, \<^verbatim>\<open>t\<close>, \<^verbatim>\<open>y\<close>, \<^verbatim>\<open>yes\<close>. Every other string, such as \<^verbatim>\<open>on\<close>,
  \<^verbatim>\<open>enabled\<close> or the empty string, parses to false; the parse is a total function to
  \<^typ>\<open>bool\<close>, so no input raises. The tuning sweep passes this boolean to the
  transfer configuration.
\<close>

theorem use_threads_bool_iff:
  "use_threads_bool s =
     (py_lower s = ''true'' \<or> py_lower s = ''1'' \<or> py_lower s = ''t''
        \<or> py_lower s = ''y'' \<or> py_lower s = ''yes'')
   \<and> \<not> use_threads_bool ''on'' \<and> \<not> use_threads_bool ''enabled'' \<and> \<not> use_threads_bool ''''
   \<and> use_threads_bool ''True'' \<and> use_threads_bool ''YES''
   \<and> cfg_use_threads (tuning_config (a, b, c, s)) = use_threads_bool s"
  by (simp add: use_threads_bool_def py_lower_def lower_char_def tuning_config_def)

section \<open>Result files are overwritten\<close>

lemma writerows_content:
  "fs filename = Some content \<Longrightarrow>
     writerows fs filename rows = fs(filename \<mapsto> content @ map Row rows)"
proof (induction rows arbitrary: fs content)
  case Nil
  then show ?case by (simp add: fun_upd_idem)
next
  case (Cons row rows)
  have "writerow fs filename row filename = Some (content @ [Row row])"
    using Cons.prems by (simp add: writerow_def write_item_def)
  then have "writerows (writerow fs filename row) filename rows
               = (writerow fs filename row)(filename \<mapsto> (content @ [Row row]) @ map Row rows)"
    by (rule Cons.IH)
  then show ?case
    using Cons.prems by (simp add: writerow_def write_item_def)
qed

lemma save_results_to_csv_tuning_content:
  "save_results_to_csv_tuning rs filename fs =
     fs(filename \<mapsto>
          Row [PStr ''Multipart Threshold (bytes)'', PStr ''Max Concurrency'',
               PStr ''Multipart Chunksize (bytes)'', PStr ''Use Threads'',
               PStr ''Time Taken (s)'', PStr ''Download Speed (Mbps)'']
          # map (\<lambda>r. Row (tuning_row_cells r)) rs)"
  by (simp add: save_results_to_csv_tuning_def Let_def open_w_def writerow_def write_item_def
      writerows_content [where content = "[Row h]" for h] comp_def)

lemma save_results_to_csv_download_content:
  "save_results_to_csv_download rs filename fs =
     fs(filename \<mapsto>
          Row [PStr ''File Size (MB)'', PStr ''Time Taken (s)'',
               PStr ''Download Speed (Mbps)'', PStr ''Multipart Threshold (bytes)'',
               PStr ''Max Concurrency'', PStr ''Multipart Chunksize (bytes)'',
               PStr ''Use Threads'']
          # map (\<lambda>r. Row (size_row_cells r)) rs)"
  by (simp add: save_results_to_csv_download_def Let_def open_w_def writerow_def write_item_def
      writerows_content [where content = "[Row h]" for h] comp_def)

lemma save_results_to_csv_upload_content:
  "save_results_to_csv_upload rs filename fs =
     fs(filename \<mapsto>
          Row [PStr ''File Size (MB)'', PStr ''Time Taken (s)'',
               PStr ''Upload Speed (Mbps)'', PStr ''Multipart Threshold (bytes)'',
               PStr ''Max Concurrency'', PStr ''Multipart Chunksize (bytes)'',
               PStr ''Use Threads'']
          # map (\<lambda>r. Row (size_row_cells r)) rs)"
  by (simp add: save_results_to_csv_upload_def Let_def open_w_def writerow_def write_item_def
      writerows_content [where content = "[Row h]" for h] comp_def)

lemma save_fastest_to_json_content:
  "save_fastest_to_json best filename fs = fs(filename \<mapsto> [Document best])"
  by (simp add: save_fastest_to_json_def Let_def open_w_def write_item_def)

text \<open>
  Claim C8. Saving the same results (or the same fastest configuration) to the same
  file twice leaves the files exactly as saving once does: each save opens the file in
  mode \<^verbatim>\<open>w\<close>, which truncates it.
\<close>

theorem persist_idempotent:
  "save_results_to_csv_tuning rs filename (save_results_to_csv_tuning rs filename fs)
     = save_results_to_csv_tuning rs filename fs
   \<and> save_results_to_csv_download srs filename (save_results_to_csv_download srs filename fs)
     = save_results_to_csv_download srs filename fs
   \<and> save_results_to_csv_upload srs filename (save_results_to_csv_upload srs filename fs)
     = save_results_to_csv_upload srs filename fs
   \<and> save_fastest_to_json best filename (save_fastest_to_json best filename fs)
     = save_fastest_to_json best filename fs"
  by (simp add: save_results_to_csv_tuning_content save_results_to_csv_download_content
      save_results_to_csv_upload_content save_fastest_to_json_content)

section \<open>The cartesian product of the tuning ranges\<close>

lemma length_concat_uniform:
  "(\<And>a. length (f a) = n) \<Longrightarrow> length (concat (map f xs)) = length xs * n"
  by (induction xs) simp_all

lemma nth_concat_uniform:
  "(\<And>a. length (f a) = n) \<Longrightarrow> i < length xs \<Longrightarrow> j < n \<Longrightarrow>
     concat (map f xs) ! (i * n + j) = f (xs ! i) ! j"
proof (induction xs arbitrary: i)
  case Nil
  then show ?case by simp
next
  case (Cons x xs)
  show ?case
  proof (cases i)
    case 0
    then show ?thesis using Cons.prems by (simp add: nth_append)
  next
    case (Suc i')
    have "concat (map f (x # xs)) ! (i * n + j) = concat (map f xs) ! (i' * n + j)"
      using Suc Cons.prems(1) [of x] by (simp add: nth_append)
    also have "\<dots> = f (xs ! i') ! j"
      using Cons.IH [of i'] Cons.prems Suc by simp
    finally show ?thesis using Suc by simp
  qed
qed

lemma index_bound: "i < m \<Longrightarrow> j < n \<Longrightarrow> i * n + j < m * (n::nat)"
proof -
  assume a: "i < m" "j < n"
  then have "i * n + j < Suc i * n" by simp
  also have "\<dots> \<le> m * n" using a(1) by (intro mult_le_mono1) simp
  finally show ?thesis .
qed

lemma length_itertools_product:
  "length (itertools_product ps qs rs ss) = length ps * length qs * length rs * length ss"
proof -
  have 1: "\<And>a b c. length (map (\<lambda>d. (a, b, c, d)) ss) = length ss" by simp
  have 2: "\<And>a b. length (concat (map (\<lambda>c. map (\<lambda>d. (a, b, c, d)) ss) rs)) = length rs * length ss"
    by (rule length_concat_uniform) simp
  have 3: "\<And>a. length (concat (map (\<lambda>b. concat (map (\<lambda>c. map (\<lambda>d. (a, b, c, d)) ss) rs)) qs))
             = length qs * (length rs * length ss)"
    by (rule length_concat_uniform) (rule 2)
  have "length (itertools_product ps qs rs ss) = length ps * (length qs * (length rs * length ss))"
    unfolding itertools_product_def by (rule length_concat_uniform) (rule 3)
  then show ?thesis by (simp add: mult.assoc)
qed

lemma nth_itertools_product:
  assumes "i < length ps" "j < length qs" "k < length rs" "l < length ss"
  shows "itertools_product ps qs rs ss
           ! (((i * length qs + j) * length rs + k) * length ss + l)
         = (ps ! i, qs ! j, rs ! k, ss ! l)"
proof -
  let ?x = "length qs" and ?y = "length rs" and ?z = "length ss"
  have 2: "\<And>a b. length (concat (map (\<lambda>c. map (\<lambda>d. (a, b, c, d)) ss) rs)) = ?y * ?z"
    by (rule length_concat_uniform) simp
  have 3: "\<And>a. length (concat (map (\<lambda>b. concat (map (\<lambda>c. map (\<lambda>d. (a, b, c, d)) ss) rs)) qs))
             = ?x * (?y * ?z)"
    by (rule length_concat_uniform) (rule 2)
  have kl: "k * ?z + l < ?y * ?z" using assms by (intro index_bound)
  have jkl: "j * (?y * ?z) + (k * ?z + l) < ?x * (?y * ?z)" using assms kl by (intro index_bound)
  have idx: "((i * ?x + j) * ?y + k) * ?z + l = i * (?x * (?y * ?z)) + (j * (?y * ?z) + (k * ?z + l))"
    by (simp add: algebra_simps)
  have "itertools_product ps qs rs ss ! (i * (?x * (?y * ?z)) + (j * (?y * ?z) + (k * ?z + l)))
        = concat (map (\<lambda>b. concat (map (\<lambda>c. map (\<lambda>d. (ps ! i, b, c, d)) ss) rs)) qs)
            ! (j * (?y * ?z) + (k * ?z + l))"
    unfolding itertools_product_def using 3 assms(1) jkl by (rule nth_concat_uniform)
  also have "\<dots> = concat (map (\<lambda>c. map (\<lambda>d. (ps ! i, qs ! j, c, d)) ss) rs) ! (k * ?z + l)"
    using 2 assms(2) kl by (rule nth_concat_uniform)
  also have "\<dots> = map (\<lambda>d. (ps ! i, qs ! j, rs ! k, d)) ss ! l"
    using _ assms(3,4) by (rule nth_concat_uniform) simp
  also have "\<dots> = (ps ! i, qs ! j, rs ! k, ss ! l)" using assms(4) by simp
  finally show ?thesis unfolding idx .
qed

section \<open>The tuning loop visits every combination\<close>

lemma row_combination_tuning_result [simp]:
  "row_combination (tuning_result combination t v) = combination"
  by (cases combination) (simp add: row_combination_def tuning_result_def)

lemma tuning_iteration_completes:
  assumes "tuning_iteration s3 object_key download_path combination st = (st', None)"
  shows "st_transfers st' = st_transfers st @ [tuning_config combination]
         \<and> (\<exists>t v. st_results st' = st_results st @ [tuning_result combination t v])"
  using assms
  by (auto simp: tuning_iteration_def TransferConfig_def Let_def
      split: sum.splits prod.splits if_splits) blast

lemma tuning_loop_completes:
  "tuning_loop s3 object_key download_path combinations st = (st', None) \<Longrightarrow>
     st_transfers st' = st_transfers st @ map tuning_config combinations
     \<and> map row_combination (st_results st')
         = map row_combination (st_results st) @ combinations"
proof (induction combinations arbitrary: st)
  case Nil
  then show ?case by simp
next
  case (Cons c cs)
  obtain st1 e1 where it: "tuning_iteration s3 object_key download_path c st = (st1, e1)"
    by (cases "tuning_iteration s3 object_key download_path c st")
  with Cons.prems have e1: "e1 = None" and rest: "tuning_loop s3 object_key download_path cs st1 = (st', None)"
    by (auto split: option.splits)
  from tuning_iteration_completes [OF it [unfolded e1]]
  obtain t v where 1: "st_transfers st1 = st_transfers st @ [tuning_config c]"
    and 2: "st_results st1 = st_results st @ [tuning_result c t v]" by blast
  from Cons.IH [OF rest] 1 2 show ?case by simp
qed


lemma tune_main_sweep:
  assumes "getenv_int env ''TUNE_FILE_SIZE'' 1024 = Inr tune_file_size"
    and "getenv_int_list env ''TUNE_MULTIPART_THRESHOLD'' = Inr ps"
    and "getenv_int_list env ''TUNE_MAX_CONCURRENCY'' = Inr qs"
    and "getenv_int_list env ''TUNE_MULTIPART_CHUNKSIZE'' = Inr rs"
    and "getenv_str_list env ''TUNE_USE_THREADS'' = Inr ss"
  shows "tune_main env s3 d0 =
           tuning_loop s3 (''example_'' @ str_int tune_file_size @ ''mb.txt'')
             (''downloaded_'' @ str_int tune_file_size @ ''mb.txt'')
             (itertools_product ps qs rs ss) (initial_state d0)"
  using assms by (simp add: tune_main_def initial_state_def)

text \<open>
  Claim C3. The combinations of the tuning sweep are the full cartesian product of the
  four lists: there are \<open>w * x * y * z\<close> of them; the combination at position
  \<open>((i * x + j) * y + k) * z + l\<close> is made of the \<open>i\<close>-th threshold, \<open>j\<close>-th concurrency,
  \<open>k\<close>-th chunk size and \<open>l\<close>-th use_threads option, so the threshold varies slowest and
  use_threads fastest, and repeated values give repeated combinations; and a sweep
  that completes has made one transfer and recorded one row per combination, in that
  order.
\<close>

theorem tuning_sweep_cartesian_product:
  "length (itertools_product ps qs rs ss) = length ps * length qs * length rs * length ss
   \<and> (\<forall>i < length ps. \<forall>j < length qs. \<forall>k < length rs. \<forall>l < length ss.
         itertools_product ps qs rs ss
           ! (((i * length qs + j) * length rs + k) * length ss + l)
         = (ps ! i, qs ! j, rs ! k, ss ! l))
   \<and> (\<forall>s3 object_key download_path d0 st'.
         tuning_loop s3 object_key download_path (itertools_product ps qs rs ss)
           (initial_state d0) = (st', None) \<longrightarrow>
         map row_combination (st_results st') = itertools_product ps qs rs ss
         \<and> st_transfers st' = map tuning_config (itertools_product ps qs rs ss))"
proof (intro conjI allI impI)
  show "length (itertools_product ps qs rs ss)
          = length ps * length qs * length rs * length ss"
    by (rule length_itertools_product)
next
  fix i j k l
  assume "i < length ps" "j < length qs" "k < length rs" "l < length ss"
  then show "itertools_product ps qs rs ss
               ! (((i * length qs + j) * length rs + k) * length ss + l)
             = (ps ! i, qs ! j, rs ! k, ss ! l)"
    by (rule nth_itertools_product)
next
  fix s3 object_key download_path d0 st'
  assume run: "tuning_loop s3 object_key download_path (itertools_product ps qs rs ss)
                 (initial_state d0) = (st', None)"
  from tuning_loop_completes [OF run]
  show "map row_combination (st_results st') = itertools_product ps qs rs ss"
    by (simp add: initial_state_def)
  from tuning_loop_completes [OF run]
  show "st_transfers st' = map tuning_config (itertools_product ps qs rs ss)"
    by (simp add: initial_state_def)
qed

theorem tuning_sweep_cartesian_product_witness:
  "length (itertools_product [10485760, 52428800::int] [5, 10::int] [10485760::int] [''true''])
     = 4
   \<and> itertools_product [10485760, 52428800::int] [5, 10::int] [10485760::int] [''true''] ! 3
       = (52428800, 10, 10485760, ''true'')
   \<and> snd (tuning_loop scenario_client ''example_1024mb.txt'' ''downloaded_1024mb.txt''
             (itertools_product [10485760, 52428800] [5, 10] [10485760] [''true''])
             (initial_state Map.empty)) = None
   \<and> map row_combination
        (st_results (fst (tuning_loop scenario_client ''example_1024mb.txt''
           ''downloaded_1024mb.txt''
           (itertools_product [10485760, 52428800] [5, 10] [10485760] [''true''])
           (initial_state Map.empty))))
       = [(10485760, 5, 10485760, ''true''), (10485760, 10, 10485760, ''true''),
          (52428800, 5, 10485760, ''true''), (52428800, 10, 10485760, ''true'')]"
proof -
  let ?P = "itertools_product [10485760, 52428800::int] [5, 10::int] [10485760::int] [''true'']"
  let ?run = "tuning_loop scenario_client ''example_1024mb.txt'' ''downloaded_1024mb.txt''
                ?P (initial_state Map.empty)"
  note T = tuning_sweep_cartesian_product
             [of "[10485760, 52428800]" "[5, 10]" "[10485760]" "[''true'']"]
  have P: "?P = [(10485760, 5, 10485760, ''true''), (10485760, 10, 10485760, ''true''),
                 (52428800, 5, 10485760, ''true''), (52428800, 10, 10485760, ''true'')]"
    by (simp add: itertools_product_def)
  have len: "length ?P = 4" using T by simp
  have "(1::nat) < length [10485760, 52428800::int]" "(1::nat) < length [5, 10::int]"
       "(0::nat) < length [10485760::int]" "(0::nat) < length [''true'']"
    by simp_all
  with T have "?P ! (((1 * length [5, 10::int] + 1) * length [10485760::int] + 0)
                     * length [''true''] + 0)
               = ([10485760, 52428800] ! 1, [5, 10] ! 1, [10485760] ! 0, [''true''] ! 0)"
    by blast
  then have nth: "?P ! 3 = (52428800, 10, 10485760, ''true'')"
    by (simp add: numeral_3_eq_3)
  have none: "snd ?run = None" by code_simp
  then have "?run = (fst ?run, None)" by (simp add: prod_eq_iff)
  with T have "map row_combination (st_results (fst ?run)) = ?P" by blast
  from this P have rows: "map row_combination (st_results (fst ?run))
      = [(10485760, 5, 10485760, ''true''), (10485760, 10, 10485760, ''true''),
         (52428800, 5, 10485760, ''true''), (52428800, 10, 10485760, ''true'')]"
    by (rule trans)
  from len nth none rows show ?thesis by blast
qed

section \<open>What is recorded for use_threads\<close>

lemma max_loop_mem: "max_loop key maxitem xs \<in> set (maxitem # xs)"
  by (induction xs arbitrary: maxitem) auto

lemma find_fastest_parameters_mem:
  assumes "find_fastest_parameters rs = Inr best"
  shows "\<exists>r \<in> set rs. best = fastest_dict r"
proof (cases rs)
  case Nil
  with assms show ?thesis by (simp add: find_fastest_parameters_def py_max_def)
next
  case (Cons x xs)
  with assms have "best = fastest_dict (max_loop row_speed_mbps x xs)"
    by (simp add: find_fastest_parameters_def py_max_def)
  moreover have "max_loop row_speed_mbps x xs \<in> set rs"
    unfolding Cons by (rule max_loop_mem)
  ultimately show ?thesis by blast
qed

lemma row_use_threads_combination:
  "row_use_threads r = (case row_combination r of (a, b, c, use_threads) \<Rightarrow> use_threads)"
  by (simp add: row_combination_def)

lemma cell_use_threads: "tuning_row_cells r ! 3 = PStr (row_use_threads r)"
  by (simp add: tuning_row_cells_def numeral_3_eq_3)

lemma dict_use_threads: "map_of (fastest_dict r) ''Use Threads'' = Some (PStr (row_use_threads r))"
  by (simp add: fastest_dict_def)

text \<open>
  Claim C10. In a tuning sweep that completes, the use_threads field of every row, the
  cell written to the table and the entry of the fastest-configuration dictionary are
  the raw string of the combination, while the transfer configuration received the
  parsed boolean. The marker size of the chart is 100 only for the exact string
  \<^verbatim>\<open>True\<close>: the inputs \<^verbatim>\<open>true\<close> and \<^verbatim>\<open>yes\<close> parse to true and still get the size 50
  of a run without threads.
\<close>

theorem use_threads_recorded_raw:
  assumes "tuning_loop s3 object_key download_path combinations (initial_state d0) = (st', None)"
  shows "map row_use_threads (st_results st')
           = map (\<lambda>(a, b, c, use_threads). use_threads) combinations
         \<and> map cfg_use_threads (st_transfers st')
           = map (\<lambda>(a, b, c, use_threads). use_threads_bool use_threads) combinations
         \<and> map (\<lambda>r. tuning_row_cells r ! 3) (st_results st')
           = map (\<lambda>(a, b, c, use_threads). PStr use_threads) combinations
         \<and> marker_sizes (st_results st')
           = map (\<lambda>(a, b, c, use_threads). if use_threads = ''True'' then 100 else 50)
               combinations
         \<and> (\<forall>best. find_fastest_parameters (st_results st') = Inr best \<longrightarrow>
               (\<exists>r \<in> set (st_results st'). best = fastest_dict r
                  \<and> map_of best ''Use Threads'' = Some (PStr (row_use_threads r))))
         \<and> use_threads_bool ''true'' \<and> use_threads_bool ''yes''
         \<and> marker_sizes [tuning_result (a, b, c, ''true'') t v,
                          tuning_result (a, b, c, ''yes'') t v,
                          tuning_result (a, b, c, ''True'') t v] = [50, 50, 100]"
proof -
  from tuning_loop_completes [OF assms]
  have tr: "st_transfers st' = map tuning_config combinations"
    and rc: "map row_combination (st_results st') = combinations"
    by (simp_all add: initial_state_def)
  have raw: "map row_use_threads (st_results st')
               = map (\<lambda>(a, b, c, use_threads). use_threads) (map row_combination (st_results st'))"
    by (simp add: row_combination_def)
  have 1: "map row_use_threads (st_results st')
             = map (\<lambda>(a, b, c, use_threads). use_threads) combinations"
    using raw rc by simp
  have 2: "map cfg_use_threads (st_transfers st')
             = map (\<lambda>(a, b, c, use_threads). use_threads_bool use_threads) combinations"
    unfolding tr by (auto simp: tuning_config_def)
  have "map (\<lambda>r. tuning_row_cells r ! 3) (st_results st')
          = map PStr (map row_use_threads (st_results st'))"
    by (simp add: cell_use_threads)
  then have 3: "map (\<lambda>r. tuning_row_cells r ! 3) (st_results st')
             = map (\<lambda>(a, b, c, use_threads). PStr use_threads) combinations"
    unfolding 1 by (simp add: case_prod_unfold)
  have 4: "marker_sizes (st_results st')
             = map (\<lambda>(a, b, c, use_threads). if use_threads = ''True'' then 100 else 50)
                 combinations"
    unfolding marker_sizes_def Let_def 1 by (simp add: case_prod_unfold)
  have 5: "\<forall>best. find_fastest_parameters (st_results st') = Inr best \<longrightarrow>
               (\<exists>r \<in> set (st_results st'). best = fastest_dict r
                  \<and> map_of best ''Use Threads'' = Some (PStr (row_use_threads r)))"
    using find_fastest_parameters_mem dict_use_threads by blast
  have 6: "use_threads_bool ''true''" "use_threads_bool ''yes''"
    by (simp_all add: use_threads_bool_def py_lower_def lower_char_def)
  have 7: "marker_sizes [tuning_result (a, b, c, ''true'') t v,
                          tuning_result (a, b, c, ''yes'') t v,
                          tuning_result (a, b, c, ''True'') t v] = [50, 50, 100]"
    by (simp add: marker_sizes_def tuning_result_def)
  from 1 2 3 4 5 6 7 show ?thesis by blast
qed

theorem use_threads_recorded_raw_witness:
  "snd (tuning_loop scenario_client ''example_1024mb.txt'' ''downloaded_1024mb.txt''
          [(10485760, 5, 10485760, ''yes'')] (initial_state Map.empty)) = None
   \<and> map row_use_threads (st_results (fst (tuning_loop scenario_client ''example_1024mb.txt''
          ''downloaded_1024mb.txt'' [(10485760, 5, 10485760, ''yes'')]
          (initial_state Map.empty)))) = [''yes'']
   \<and> map cfg_use_threads (st_transfers (fst (tuning_loop scenario_client
          ''example_1024mb.txt'' ''downloaded_1024mb.txt''
          [(10485760, 5, 10485760, ''yes'')] (initial_state Map.empty)))) = [True]
   \<and> marker_sizes (st_results (fst (tuning_loop scenario_client ''example_1024mb.txt''
          ''downloaded_1024mb.txt'' [(10485760, 5, 10485760, ''yes'')]
          (initial_state Map.empty)))) = [50]
   \<and> find_fastest_parameters (st_results (fst (tuning_loop scenario_client
          ''example_1024mb.txt'' ''downloaded_1024mb.txt''
          [(10485760, 5, 10485760, ''yes'')] (initial_state Map.empty))))
       = Inr (fastest_dict (tuning_result (10485760, 5, 10485760, ''yes'') 2 419.4304))
   \<and> (\<exists>r \<in> set (st_results (fst (tuning_loop scenario_client
          ''example_1024mb.txt'' ''downloaded_1024mb.txt''
          [(10485760, 5, 10485760, ''yes'')] (initial_state Map.empty)))).
         fastest_dict (tuning_result (10485760, 5, 10485760, ''yes'') 2 419.4304)
           = fastest_dict r
         \<and> map_of (fastest_dict (tuning_result (10485760, 5, 10485760, ''yes'') 2 419.4304))
             ''Use Threads'' = Some (PStr (row_use_threads r)))"
proof -
  let ?run = "tuning_loop scenario_client ''example_1024mb.txt'' ''downloaded_1024mb.txt''
                [(10485760, 5, 10485760, ''yes'')] (initial_state Map.empty)"
  have none: "snd ?run = None" by code_simp
  then have run: "?run = (fst ?run, None)" by (simp add: prod_eq_iff)
  note T = use_threads_recorded_raw [OF run]
  have yes: "use_threads_bool ''yes''"
    by (simp add: use_threads_bool_def py_lower_def lower_char_def)
  have 1: "map row_use_threads (st_results (fst ?run)) = [''yes'']" using T by simp
  have 2: "map cfg_use_threads (st_transfers (fst ?run)) = [True]" using T yes by simp
  have 3: "marker_sizes (st_results (fst ?run)) = [50]" using T by simp
  have 4: "find_fastest_parameters (st_results (fst ?run))
             = Inr (fastest_dict (tuning_result (10485760, 5, 10485760, ''yes'') 2 419.4304))"
    by code_simp
  from T 4 have 5: "\<exists>r \<in> set (st_results (fst ?run)).
         fastest_dict (tuning_result (10485760, 5, 10485760, ''yes'') 2 419.4304)
           = fastest_dict r
         \<and> map_of (fastest_dict (tuning_result (10485760, 5, 10485760, ''yes'') 2 419.4304))
             ''Use Threads'' = Some (PStr (row_use_threads r))"
    by blast
  from none 1 2 3 4 5 show ?thesis by blast
qed

section \<open>When an upload measures its file\<close>




section \<open>Empty input lists\<close>

lemma py_int_empty: "py_int [] = Inl ValueError"
  by (simp add: py_int_def py_strip_def)

lemma py_split_empty: "py_split sep [] = [[]]"
  by (simp add: py_split_def)

lemma split_loop_nonempty: "split_loop sep cur s \<noteq> []"
  by (induction s arbitrary: cur) auto

lemma py_split_nonempty: "py_split sep s \<noteq> []"
  by (simp add: py_split_def split_loop_nonempty)

lemma getenv_int_list_empty:
  "env name = Some [] \<Longrightarrow> getenv_int_list env name = Inl ValueError"
  by (simp add: getenv_int_list_def py_split_empty py_int_empty)

lemma load_file_sizes_empty:
  "env ''FILE_SIZES'' = Some [] \<Longrightarrow> load_file_sizes env = Inl ValueError"
  by (simp add: load_file_sizes_def py_split_empty py_int_empty)

lemma tune_main_fails_early:
  assumes "getenv_int_list env ''TUNE_MULTIPART_THRESHOLD'' = Inl e1
           \<or> getenv_int_list env ''TUNE_MAX_CONCURRENCY'' = Inl e1
           \<or> getenv_int_list env ''TUNE_MULTIPART_CHUNKSIZE'' = Inl e1"
  shows "\<exists>e. tune_main env s3 d0 = (initial_state d0, Some e)"
proof (cases "getenv_int env ''TUNE_FILE_SIZE'' 1024")
  case (Inl e)
  then show ?thesis by (simp add: tune_main_def initial_state_def)
next
  case size: (Inr tune_file_size)
  show ?thesis
  proof (cases "getenv_int_list env ''TUNE_MULTIPART_THRESHOLD''")
    case (Inl e)
    with size show ?thesis by (simp add: tune_main_def initial_state_def)
  next
    case ps: (Inr multipart_thresholds)
    show ?thesis
    proof (cases "getenv_int_list env ''TUNE_MAX_CONCURRENCY''")
      case (Inl e)
      with size ps show ?thesis by (simp add: tune_main_def initial_state_def)
    next
      case qs: (Inr max_concurrencies)
      with assms ps have "getenv_int_list env ''TUNE_MULTIPART_CHUNKSIZE'' = Inl e1"
        by simp
      with size ps qs show ?thesis by (simp add: tune_main_def initial_state_def)
    qed
  qed
qed

text \<open>
  Claim C5, as stated, has every empty list rejected before any transfer. With
  \<^verbatim>\<open>TUNE_USE_THREADS\<close> set to the empty string the tuning sweep runs to its end: two
  transfers are made, with use_threads false and the empty string recorded.
\<close>

theorem empty_list_is_error_counterexample:
  "empty_use_threads_environ ''TUNE_USE_THREADS'' = Some ''''
   \<and> snd (tune_main empty_use_threads_environ scenario_client Map.empty) = None
   \<and> map cfg_use_threads
        (st_transfers (fst (tune_main empty_use_threads_environ scenario_client Map.empty)))
       = [False, False]
   \<and> map row_use_threads
        (st_results (fst (tune_main empty_use_threads_environ scenario_client Map.empty)))
       = ['''', '''']"
  by code_simp

text \<open>
  Claim C5, amended. No list is validated and \<^verbatim>\<open>split\<close> never yields an empty list.
  An empty \<^verbatim>\<open>FILE_SIZES\<close> makes both size sweeps fail with \<^verbatim>\<open>ValueError\<close> (from
  \<^verbatim>\<open>int('')\<close>) before any transfer; an empty threshold, concurrency or chunk size list
  fails to parse with \<^verbatim>\<open>ValueError\<close> and the tuning sweep fails before any transfer; an
  empty \<^verbatim>\<open>TUNE_USE_THREADS\<close> is the single option \<^verbatim>\<open>''\<close>, which parses to false, and is
  not an error.
\<close>

theorem empty_input_lists:
  "(env ''FILE_SIZES'' = Some '''' \<longrightarrow>
      download_main env s3 d0 = (initial_state d0, Some ValueError)
      \<and> upload_main env s3 d0 = (initial_state d0, Some ValueError))
   \<and> (name \<in> {''TUNE_MULTIPART_THRESHOLD'', ''TUNE_MAX_CONCURRENCY'',
                ''TUNE_MULTIPART_CHUNKSIZE''} \<and> env name = Some '''' \<longrightarrow>
        getenv_int_list env name = Inl ValueError
        \<and> (\<exists>e. tune_main env s3 d0 = (initial_state d0, Some e)))
   \<and> (env ''TUNE_USE_THREADS'' = Some '''' \<longrightarrow>
        getenv_str_list env ''TUNE_USE_THREADS'' = Inr ['''']
        \<and> \<not> use_threads_bool '''')
   \<and> py_split (CHR '','') v \<noteq> []"
proof (intro conjI impI)
  assume "env ''FILE_SIZES'' = Some ''''"
  then have f: "load_file_sizes env = Inl ValueError" by (rule load_file_sizes_empty)
  show "download_main env s3 d0 = (initial_state d0, Some ValueError)"
    by (simp add: download_main_def initial_state_def f)
  show "upload_main env s3 d0 = (initial_state d0, Some ValueError)"
    by (simp add: upload_main_def initial_state_def f)
next
  assume a: "name \<in> {''TUNE_MULTIPART_THRESHOLD'', ''TUNE_MAX_CONCURRENCY'',
                ''TUNE_MULTIPART_CHUNKSIZE''} \<and> env name = Some ''''"
  then show l: "getenv_int_list env name = Inl ValueError"
    by (simp add: getenv_int_list_empty)
  from a l have "getenv_int_list env ''TUNE_MULTIPART_THRESHOLD'' = Inl ValueError
           \<or> getenv_int_list env ''TUNE_MAX_CONCURRENCY'' = Inl ValueError
           \<or> getenv_int_list env ''TUNE_MULTIPART_CHUNKSIZE'' = Inl ValueError"
    by blast
  then show "\<exists>e. tune_main env s3 d0 = (initial_state d0, Some e)"
    by (rule tune_main_fails_early)
next
  assume "env ''TUNE_USE_THREADS'' = Some ''''"
  then show "getenv_str_list env ''TUNE_USE_THREADS'' = Inr ['''']"
    by (simp add: getenv_str_list_def py_split_empty)
next
  show "\<not> use_threads_bool ''''"
    by (simp add: use_threads_bool_def py_lower_def)
next
  show "py_split (CHR '','') v \<noteq> []" by (rule py_split_nonempty)
qed

theorem empty_input_lists_witness:
  "empty_sizes_environ ''FILE_SIZES'' = Some ''''
   \<and> empty_sizes_environ ''TUNE_MAX_CONCURRENCY'' = Some ''''
   \<and> empty_sizes_environ ''TUNE_USE_THREADS'' = Some ''''
   \<and> download_main empty_sizes_environ scenario_client Map.empty
       = (initial_state Map.empty, Some ValueError)
   \<and> upload_main empty_sizes_environ scenario_client Map.empty
       = (initial_state Map.empty, Some ValueError)
   \<and> getenv_int_list empty_sizes_environ ''TUNE_MAX_CONCURRENCY'' = Inl ValueError
   \<and> (\<exists>e. tune_main empty_sizes_environ scenario_client Map.empty
             = (initial_state Map.empty, Some e))
   \<and> tune_main empty_sizes_environ scenario_client Map.empty
       = (initial_state Map.empty, Some ValueError)
   \<and> getenv_str_list empty_sizes_environ ''TUNE_USE_THREADS'' = Inr ['''']"
proof -
  have 5: "tune_main empty_sizes_environ scenario_client Map.empty
             = (initial_state Map.empty, Some ValueError)"
    by (simp add: tune_main_def initial_state_def empty_sizes_environ_def getenv_int_def
          getenv_int_list_def py_split_def py_int_def py_strip_def is_space_def is_digit_def
          digit_val_def)
  have 1: "empty_sizes_environ ''FILE_SIZES'' = Some ''''"
    and 2: "empty_sizes_environ ''TUNE_MAX_CONCURRENCY'' = Some ''''"
    and 3: "empty_sizes_environ ''TUNE_USE_THREADS'' = Some ''''"
    by (simp_all add: empty_sizes_environ_def)
  have 4: "''TUNE_MAX_CONCURRENCY'' \<in> {''TUNE_MULTIPART_THRESHOLD'', ''TUNE_MAX_CONCURRENCY'',
                ''TUNE_MULTIPART_CHUNKSIZE''}" by simp
  note T = empty_input_lists [of empty_sizes_environ scenario_client Map.empty
             "''TUNE_MAX_CONCURRENCY''" "''''"]
  from T 1 2 3 4 5 show ?thesis by blast
qed

text \<open>
  A range that were empty would give a sweep of no iterations, which ends without an
  error.
\<close>

lemma concat_map_Nil: "concat (map (\<lambda>x. []) xs) = []"
  by (induction xs) simp_all

lemma empty_range_no_iterations:
  "tuning_loop s3 object_key download_path (itertools_product ps qs rs []) st = (st, None)"
  by (simp add: itertools_product_def concat_map_Nil)

lemma empty_sizes_no_iterations:
  "download_loop s3 config [] st = (st, None)"
  "upload_loop s3 config [] st = (st, None)"
  by simp_all

end
